theory Spec2Isabelle
  imports Main
begin

section \<open>Notebooks as programs\<close>

text \<open>
  The repository consists of Jupyter notebooks. A notebook is a list of cells; a code cell
  holds Python statements that run in one shared global namespace, a markdown cell holds
  prose. Every substantial computation in the notebooks is a call into an external library
  (MNE, braindecode, skorch, torch, matplotlib), whose code is not part of the repository.
  What the notebooks themselves decide is which names are bound when a statement runs, in
  which order library operations are requested, and whether a cell is a Python program at
  all. The syntax below keeps exactly that: the expressions and statements of the cells as
  they are written, with literals kept as text.
\<close>

datatype expr =
    Name string                         \<comment> \<open>a variable read\<close>
  | Num string                          \<comment> \<open>numeric literal, as written\<close>
  | Str string                          \<comment> \<open>string literal, without its quotes\<close>
  | Const string                        \<comment> \<open>\<open>True\<close>, \<open>False\<close>, \<open>None\<close>\<close>
  | Attr expr string                    \<comment> \<open>\<open>e.a\<close>\<close>
  | Index expr "expr list"              \<comment> \<open>\<open>e[i, j, ...]\<close>\<close>
  | Slice "expr list"                   \<comment> \<open>\<open>lo:hi:step\<close>, the bounds that are written\<close>
  | Call expr "expr list"               \<comment> \<open>\<open>f(a, ..., k=v, ...)\<close>\<close>
  | Kw string expr                      \<comment> \<open>keyword argument \<open>k=v\<close>\<close>
  | Star expr                           \<comment> \<open>unpacked argument \<open>*e\<close>\<close>
  | Seq "expr list"                     \<comment> \<open>tuple, list or dict display, items in evaluation order\<close>
  | BinOp string expr expr              \<comment> \<open>arithmetic and comparison operators\<close>
  | Cond expr expr expr                 \<comment> \<open>\<open>a if test else b\<close>, as \<open>Cond a test b\<close>\<close>
  | Comp "expr list" "string list" expr \<comment> \<open>comprehension: items, loop variables, iterable\<close>

datatype stmt =
    Magic string                        \<comment> \<open>IPython line magic or shell escape\<close>
  | Import string "string list"         \<comment> \<open>module imported from, names bound\<close>
  | Assign "expr list" "expr option"    \<comment> \<open>targets \<open>=\<close> value; \<open>None\<close> when nothing follows the \<open>=\<close>\<close>
  | AugAssign expr string expr          \<comment> \<open>\<open>target op= value\<close>\<close>
  | ExprStmt expr
  | Del "string list"
  | If expr "stmt list"
  | For "string list" expr "stmt list"

datatype cell = MarkdownCell | CodeCell "stmt list"

subsection \<open>Running a cell\<close>

datatype error =
    SyntaxError                         \<comment> \<open>the cell does not compile\<close>
  | NameError string                    \<comment> \<open>a name is read that is not bound\<close>
  | ValueError                          \<comment> \<open>unpacking a display of the wrong length\<close>
  | LibError string                     \<comment> \<open>an exception raised inside a library operation\<close>

text \<open>
  The values the libraries return are opaque. The library's behaviour is a parameter: for
  the \<open>k\<close>-th operation requested of it, whether that operation raises, which way a
  test on one of its values goes, and how many items an iteration over one of its values
  yields.
\<close>

record env =
  raises :: "nat \<Rightarrow> bool"
  truthy :: "nat \<Rightarrow> bool"
  iters :: "nat \<Rightarrow> nat"

record state =
  names :: "string list"                \<comment> \<open>the names bound in the global namespace\<close>
  tick :: nat                           \<comment> \<open>library operations requested so far\<close>
  calls :: "string list"                \<comment> \<open>the calls that have returned, oldest first\<close>

datatype result = Ok state | Raised error state

definition builtins :: "string list" where
  "builtins = [''print'', ''sorted'', ''zip'', ''dict'', ''str'', ''__doc__'']"

definition lib_op :: "env \<Rightarrow> string \<Rightarrow> state \<Rightarrow> result" where
  "lib_op E what s =
     (if raises E (tick s) then Raised (LibError what) (s\<lparr>tick := Suc (tick s)\<rparr>)
      else Ok (s\<lparr>tick := Suc (tick s)\<rparr>))"

fun path :: "expr \<Rightarrow> string" where
  "path (Name n) = n"
| "path (Attr e a) = path e @ ''.'' @ a"
| "path (Index e _) = path e @ ''[]''"
| "path (Call f _) = path f @ ''()''"
| "path _ = ''?''"

primrec repeat :: "nat \<Rightarrow> (state \<Rightarrow> result) \<Rightarrow> state \<Rightarrow> result" where
  "repeat 0 f s = Ok s"
| "repeat (Suc n) f s = (case f s of Ok s' \<Rightarrow> repeat n f s' | Raised e s' \<Rightarrow> Raised e s')"

definition scoped :: "string list \<Rightarrow> result \<Rightarrow> result" where
  "scoped ns r = (case r of Ok s \<Rightarrow> Ok (s\<lparr>names := ns\<rparr>) | Raised e s \<Rightarrow> Raised e (s\<lparr>names := ns\<rparr>))"

fun eval_expr :: "env \<Rightarrow> expr \<Rightarrow> state \<Rightarrow> result"
  and eval_list :: "env \<Rightarrow> expr list \<Rightarrow> state \<Rightarrow> result" where
  "eval_expr E (Name n) s =
     (if n \<in> set (names s) \<or> n \<in> set builtins then Ok s else Raised (NameError n) s)"
| "eval_expr E (Num _) s = Ok s"
| "eval_expr E (Str _) s = Ok s"
| "eval_expr E (Const _) s = Ok s"
| "eval_expr E (Attr e a) s =
     (case eval_expr E e s of Ok s1 \<Rightarrow> lib_op E (''.'' @ a) s1 | Raised x s1 \<Rightarrow> Raised x s1)"
| "eval_expr E (Index e is) s =
     (case eval_expr E e s of
        Ok s1 \<Rightarrow> (case eval_list E is s1 of
                    Ok s2 \<Rightarrow> lib_op E ''[]'' s2
                  | Raised x s2 \<Rightarrow> Raised x s2)
      | Raised x s1 \<Rightarrow> Raised x s1)"
| "eval_expr E (Slice es) s = eval_list E es s"
| "eval_expr E (Call f as) s =
     (case eval_expr E f s of
        Ok s1 \<Rightarrow> (case eval_list E as s1 of
                    Ok s2 \<Rightarrow> (case lib_op E (path f) s2 of
                                Ok s3 \<Rightarrow> Ok (s3\<lparr>calls := calls s3 @ [path f]\<rparr>)
                              | Raised x s3 \<Rightarrow> Raised x s3)
                  | Raised x s2 \<Rightarrow> Raised x s2)
      | Raised x s1 \<Rightarrow> Raised x s1)"
| "eval_expr E (Kw k e) s = eval_expr E e s"
| "eval_expr E (Star e) s =
     (case eval_expr E e s of Ok s1 \<Rightarrow> lib_op E ''*'' s1 | Raised x s1 \<Rightarrow> Raised x s1)"
| "eval_expr E (Seq es) s = eval_list E es s"
| "eval_expr E (BinOp op a b) s =
     (case eval_expr E a s of
        Ok s1 \<Rightarrow> (case eval_expr E b s1 of
                    Ok s2 \<Rightarrow> lib_op E op s2
                  | Raised x s2 \<Rightarrow> Raised x s2)
      | Raised x s1 \<Rightarrow> Raised x s1)"
| "eval_expr E (Cond a t b) s =
     (case eval_expr E t s of
        Ok s1 \<Rightarrow> (case lib_op E ''bool'' s1 of
                    Ok s2 \<Rightarrow> if truthy E (tick s1) then eval_expr E a s2 else eval_expr E b s2
                  | Raised x s2 \<Rightarrow> Raised x s2)
      | Raised x s1 \<Rightarrow> Raised x s1)"
| "eval_expr E (Comp items vars it) s =
     (case eval_expr E it s of
        Ok s1 \<Rightarrow> (case lib_op E ''iter'' s1 of
                    Ok s2 \<Rightarrow> scoped (names s2)
                               (repeat (iters E (tick s1)) (eval_list E items)
                                  (s2\<lparr>names := vars @ names s2\<rparr>))
                  | Raised x s2 \<Rightarrow> Raised x s2)
      | Raised x s1 \<Rightarrow> Raised x s1)"
| "eval_list E [] s = Ok s"
| "eval_list E (e # es) s =
     (case eval_expr E e s of Ok s1 \<Rightarrow> eval_list E es s1 | Raised x s1 \<Rightarrow> Raised x s1)"

text \<open>
  Binding. A name target binds the name; an attribute or item target asks the library to
  store into the object. Python evaluates the value first and then the targets from left
  to right; several targets unpack the value, which is checked here when the value is a
  display and left to the library otherwise.
\<close>

fun store :: "env \<Rightarrow> expr \<Rightarrow> state \<Rightarrow> result" where
  "store E (Name n) s = Ok (s\<lparr>names := List.insert n (names s)\<rparr>)"
| "store E (Attr e a) s =
     (case eval_expr E e s of
        Ok s1 \<Rightarrow> lib_op E (''.'' @ a @ ''='') s1
      | Raised x s1 \<Rightarrow> Raised x s1)"
| "store E (Index e is) s =
     (case eval_expr E e s of
        Ok s1 \<Rightarrow> (case eval_list E is s1 of
                    Ok s2 \<Rightarrow> lib_op E ''[]='' s2
                  | Raised x s2 \<Rightarrow> Raised x s2)
      | Raised x s1 \<Rightarrow> Raised x s1)"
| "store E _ s = Ok s"

fun store_all :: "env \<Rightarrow> expr list \<Rightarrow> state \<Rightarrow> result" where
  "store_all E [] s = Ok s"
| "store_all E (t # ts) s =
     (case store E t s of Ok s1 \<Rightarrow> store_all E ts s1 | Raised x s1 \<Rightarrow> Raised x s1)"

fun unpack :: "env \<Rightarrow> nat \<Rightarrow> expr \<Rightarrow> state \<Rightarrow> result" where
  "unpack E n (Seq es) s = (if length es = n then Ok s else Raised ValueError s)"
| "unpack E n _ s = lib_op E ''unpack'' s"

fun store_aug :: "env \<Rightarrow> expr \<Rightarrow> state \<Rightarrow> result" where
  "store_aug E (Name n) s = Ok (s\<lparr>names := List.insert n (names s)\<rparr>)"
| "store_aug E _ s = lib_op E ''store'' s"

fun del_names :: "string list \<Rightarrow> state \<Rightarrow> result" where
  "del_names [] s = Ok s"
| "del_names (n # ns) s =
     (if n \<in> set (names s) then del_names ns (s\<lparr>names := removeAll n (names s)\<rparr>)
      else Raised (NameError n) s)"

definition bind_names :: "string list \<Rightarrow> state \<Rightarrow> state" where
  "bind_names ns s = s\<lparr>names := fold List.insert ns (names s)\<rparr>"

fun exec_stmt :: "env \<Rightarrow> stmt \<Rightarrow> state \<Rightarrow> result"
  and exec_block :: "env \<Rightarrow> stmt list \<Rightarrow> state \<Rightarrow> result" where
  "exec_stmt E (Magic m) s = lib_op E m s"
| "exec_stmt E (Import m ns) s =
     (case lib_op E (''import '' @ m) s of
        Ok s1 \<Rightarrow> Ok (bind_names ns s1)
      | Raised x s1 \<Rightarrow> Raised x s1)"
| "exec_stmt E (Assign ts None) s = Raised SyntaxError s"
| "exec_stmt E (Assign ts (Some v)) s =
     (case eval_expr E v s of
        Ok s1 \<Rightarrow> (case (if length ts = 1 then Ok s1 else unpack E (length ts) v s1) of
                    Ok s2 \<Rightarrow> store_all E ts s2
                  | Raised x s2 \<Rightarrow> Raised x s2)
      | Raised x s1 \<Rightarrow> Raised x s1)"
| "exec_stmt E (AugAssign t op v) s =
     (case eval_expr E t s of
        Ok s1 \<Rightarrow> (case eval_expr E v s1 of
                    Ok s2 \<Rightarrow> (case lib_op E op s2 of
                                Ok s3 \<Rightarrow> store_aug E t s3
                              | Raised x s3 \<Rightarrow> Raised x s3)
                  | Raised x s2 \<Rightarrow> Raised x s2)
      | Raised x s1 \<Rightarrow> Raised x s1)"
| "exec_stmt E (ExprStmt e) s = eval_expr E e s"
| "exec_stmt E (Del ns) s = del_names ns s"
| "exec_stmt E (If t body) s =
     (case eval_expr E t s of
        Ok s1 \<Rightarrow> (case lib_op E ''bool'' s1 of
                    Ok s2 \<Rightarrow> if truthy E (tick s1) then exec_block E body s2 else Ok s2
                  | Raised x s2 \<Rightarrow> Raised x s2)
      | Raised x s1 \<Rightarrow> Raised x s1)"
| "exec_stmt E (For vars it body) s =
     (case eval_expr E it s of
        Ok s1 \<Rightarrow> (case lib_op E ''iter'' s1 of
                    Ok s2 \<Rightarrow> repeat (iters E (tick s1))
                               (\<lambda>s'. exec_block E body (bind_names vars s')) s2
                  | Raised x s2 \<Rightarrow> Raised x s2)
      | Raised x s1 \<Rightarrow> Raised x s1)"
| "exec_block E [] s = Ok s"
| "exec_block E (c # cs) s =
     (case exec_stmt E c s of Ok s1 \<Rightarrow> exec_block E cs s1 | Raised x s1 \<Rightarrow> Raised x s1)"

text \<open>
  IPython compiles the whole source of a cell before it runs any of it: a cell that is not
  a Python program raises \<open>SyntaxError\<close> and none of its statements runs. The one way a
  cell of these notebooks fails to compile is an assignment with nothing after the \<open>=\<close>.
\<close>

fun wf_stmt :: "stmt \<Rightarrow> bool" where
  "wf_stmt (Assign ts None) = False"
| "wf_stmt (If t body) = list_all wf_stmt body"
| "wf_stmt (For vars it body) = list_all wf_stmt body"
| "wf_stmt _ = True"

definition compiles :: "stmt list \<Rightarrow> bool" where
  "compiles body = list_all wf_stmt body"

definition run_cell :: "env \<Rightarrow> stmt list \<Rightarrow> state \<Rightarrow> result" where
  "run_cell E body s = (if compiles body then exec_block E body s else Raised SyntaxError s)"

text \<open>
  Running a notebook from top to bottom on a fresh kernel: code cells run in order, markdown
  cells are skipped, and the run stops at the first cell that raises. Cells are numbered
  from 0 in the order of the notebook file, markdown cells included.
\<close>

datatype outcome = Finished state | Stopped nat error state

fun run_cells :: "env \<Rightarrow> nat \<Rightarrow> cell list \<Rightarrow> state \<Rightarrow> outcome" where
  "run_cells E i [] s = Finished s"
| "run_cells E i (MarkdownCell # cs) s = run_cells E (Suc i) cs s"
| "run_cells E i (CodeCell body # cs) s =
     (case run_cell E body s of
        Ok s1 \<Rightarrow> run_cells E (Suc i) cs s1
      | Raised x s1 \<Rightarrow> Stopped i x s1)"

definition fresh :: state where
  "fresh = \<lparr>names = [], tick = 0, calls = []\<rparr>"

definition run :: "env \<Rightarrow> cell list \<Rightarrow> outcome" where
  "run E nb = run_cells E 0 nb fresh"

section \<open>The decoding notebook\<close>

text \<open>
  The cells of the decoding notebook (\<open>mne_decoding_DL.ipynb\<close>), statement by
  statement. Comments are dropped; nothing else is.
\<close>

definition cell_install :: "stmt list" where
  "cell_install = [Magic ''!pip install mne braindecode'']"

definition cell_inline :: "stmt list" where
  "cell_inline = [Magic ''%matplotlib inline'']"

definition cell_load :: "stmt list" where
  "cell_load =
    [Import ''numpy'' [''np''],
     Import ''matplotlib.pyplot'' [''plt''],
     Import ''sklearn.pipeline'' [''make_pipeline''],
     Import ''sklearn.preprocessing'' [''StandardScaler''],
     Import ''sklearn.linear_model'' [''LogisticRegression''],
     Import ''mne'' [''mne''],
     Import ''mne.datasets'' [''sample''],
     Import ''mne.decoding''
       [''SlidingEstimator'', ''GeneralizingEstimator'', ''Scaler'', ''cross_val_multiscore'',
        ''LinearModel'', ''get_coef'', ''Vectorizer'', ''CSP''],
     Assign [Name ''data_path''] (Some (Call (Attr (Name ''sample'') ''data_path'') [])),
     Assign [Name ''subjects_dir'']
       (Some (BinOp ''+'' (Name ''data_path'') (Str ''/subjects''))),
     Assign [Name ''raw_fname'']
       (Some (BinOp ''+'' (Name ''data_path'') (Str ''/MEG/sample/sample_audvis_raw.fif''))),
     Assign [Name ''tmin'', Name ''tmax''] (Some (Seq [Num ''-0.200'', Num ''0.700''])),
     Assign [Name ''event_id'']
       (Some (Seq [Str ''Auditory/Left'', Num ''1'', Str ''Auditory/Right'', Num ''2'',
                   Str ''Visual/Left'', Num ''3'', Str ''Visual/Right'', Num ''4''])),
     Assign [Name ''raw'']
       (Some (Call (Attr (Attr (Name ''mne'') ''io'') ''read_raw_fif'')
                [Name ''raw_fname'', Kw ''preload'' (Const ''True'')])),
     ExprStmt (Call (Attr (Name ''raw'') ''filter'') [Num ''2'', Num ''40'']),
     Assign [Name ''events''] (Some (Call (Attr (Name ''mne'') ''find_events'') [Name ''raw''])),
     AugAssign (Index (Attr (Name ''raw'') ''info'') [Str ''bads'']) ''+=''
       (Seq [Str ''MEG 2443'', Str ''EEG 053'']),
     Assign [Name ''epochs'']
       (Some (Call (Attr (Name ''mne'') ''Epochs'')
                [Name ''raw'', Name ''events'', Name ''event_id'', Name ''tmin'', Name ''tmax'',
                 Kw ''proj'' (Const ''True''),
                 Kw ''picks'' (Seq [Str ''eeg'', Str ''eog'']),
                 Kw ''baseline'' (Seq [Const ''None'', Num ''0.'']),
                 Kw ''preload'' (Const ''True''),
                 Kw ''reject'' (Call (Name ''dict'')
                                 [Kw ''eeg'' (Num ''150e-6''), Kw ''eog'' (Num ''150e-6'')]),
                 Kw ''decim'' (Num ''1'')])),
     ExprStmt (Call (Attr (Name ''epochs'') ''pick_types'')
                 [Kw ''meg'' (Const ''False''), Kw ''eeg'' (Const ''True''),
                  Kw ''exclude'' (Str ''bads'')]),
     Del [''raw'']]"

definition cell_import_create :: "stmt list" where
  "cell_import_create = [Import ''braindecode.datasets'' [''create_from_X_y'']]"

definition cell_info :: "stmt list" where
  "cell_info =
    [Assign [Name ''sfreq''] (Some (Index (Attr (Name ''epochs'') ''info'') [Str ''sfreq''])),
     Assign [Name ''ch_names'']
       (Some (Index (Attr (Name ''epochs'') ''info'') [Str ''ch_names'']))]"

definition cell_windows :: "stmt list" where
  "cell_windows =
    [Assign [Name ''windows_dataset'']
       (Some (Call (Name ''create_from_X_y'')
                [Index (Name ''X'') [Slice [], Slice [Num ''-1''], Slice []],
                 Name ''y'',
                 Kw ''drop_last_window'' (Const ''False''),
                 Kw ''sfreq'' (Name ''sfreq''),
                 Kw ''ch_names'' (Index (Name ''ch_names'') [Slice [Num ''-1'']])]))]"

definition cell_model :: "stmt list" where
  "cell_model =
    [Import ''torch'' [''torch''],
     Import ''braindecode.util'' [''set_random_seeds''],
     Import ''braindecode.models'' [''ShallowFBCSPNet''],
     Assign [Name ''cuda'']
       (Some (Call (Attr (Attr (Name ''torch'') ''cuda'') ''is_available'') [])),
     Assign [Name ''device''] (Some (Cond (Str ''cuda'') (Name ''cuda'') (Str ''cpu''))),
     If (Name ''cuda'')
       [Assign [Attr (Attr (Attr (Name ''torch'') ''backends'') ''cudnn'') ''benchmark'']
          (Some (Const ''True''))],
     Assign [Name ''seed''] (Some (Num ''20200220'')),
     ExprStmt (Call (Name ''set_random_seeds'')
                 [Kw ''seed'' (Name ''seed''), Kw ''cuda'' (Name ''cuda'')]),
     Assign [Name ''n_classes''] (Some (Num ''4'')),
     Assign [Name ''n_chans'']
       (Some (Index (Attr (Index (Index (Name ''windows_dataset'') [Num ''0'']) [Num ''0''])
                       ''shape'') [Num ''0''])),
     Assign [Name ''input_window_samples'']
       (Some (Index (Attr (Index (Index (Name ''windows_dataset'') [Num ''0'']) [Num ''0''])
                       ''shape'') [Num ''1''])),
     Assign [Name ''model'']
       (Some (Call (Name ''ShallowFBCSPNet'')
                [Name ''n_chans'', Name ''n_classes'',
                 Kw ''input_window_samples'' (Name ''input_window_samples''),
                 Kw ''final_conv_length'' (Str ''auto'')]))]"

definition cell_fit :: "stmt list" where
  "cell_fit =
    [Import ''skorch'' [''skorch''],
     Import ''skorch.callbacks'' [''LRScheduler''],
     Import ''braindecode'' [''EEGClassifier''],
     Assign [Name ''lr''] (Some (BinOp ''*'' (Num ''0.0625'') (Num ''0.01''))),
     Assign [Name ''weight_decay''] (Some (Num ''0'')),
     Assign [Name ''batch_size''] (Some (Num ''16'')),
     Assign [Name ''n_epochs''] (Some (Num ''10'')),
     Assign [Name ''clf'']
       (Some (Call (Name ''EEGClassifier'')
                [Name ''model'',
                 Kw ''criterion'' (Attr (Attr (Name ''torch'') ''nn'') ''NLLLoss''),
                 Kw ''optimizer'' (Attr (Attr (Name ''torch'') ''optim'') ''Adam''),
                 Kw ''train_split''
                   (Call (Attr (Attr (Name ''skorch'') ''dataset'') ''CVSplit'')
                      [Kw ''cv'' (Num ''10''), Kw ''stratified'' (Const ''True''),
                       Kw ''random_state'' (Num ''320'')]),
                 Kw ''optimizer__lr'' (Name ''lr''),
                 Kw ''optimizer__weight_decay'' (Name ''weight_decay''),
                 Kw ''batch_size'' (Name ''batch_size''),
                 Kw ''callbacks''
                   (Seq [Str ''accuracy'',
                         Seq [Str ''lr_scheduler'',
                              Call (Name ''LRScheduler'')
                                [Str ''CosineAnnealingLR'',
                                 Kw ''T_max'' (BinOp ''-'' (Name ''n_epochs'') (Num ''1''))]]]),
                 Kw ''device'' (Name ''device'')])),
     ExprStmt (Call (Attr (Name ''clf'') ''fit'')
                 [Name ''windows_dataset'', Kw ''y'' (Name ''y''),
                  Kw ''epochs'' (Name ''n_epochs'')])]"

definition cell_curves :: "stmt list" where
  "cell_curves =
    [Import ''matplotlib.pyplot'' [''plt''],
     Import ''matplotlib.lines'' [''Line2D''],
     Import ''pandas'' [''pd''],
     Assign [Name ''results_columns'']
       (Some (Seq [Str ''train_loss'', Str ''valid_loss'', Str ''train_accuracy'',
                   Str ''valid_accuracy''])),
     Assign [Name ''df'']
       (Some (Call (Attr (Name ''pd'') ''DataFrame'')
                [Index (Attr (Name ''clf'') ''history'') [Slice [], Name ''results_columns''],
                 Kw ''columns'' (Name ''results_columns''),
                 Kw ''index'' (Index (Attr (Name ''clf'') ''history'') [Slice [], Str ''epoch''])])),
     Assign [Name ''df'']
       (Some (Call (Attr (Name ''df'') ''assign'')
                [Kw ''train_misclass''
                   (BinOp ''-'' (Num ''100'')
                      (BinOp ''*'' (Num ''100'') (Attr (Name ''df'') ''train_accuracy''))),
                 Kw ''valid_misclass''
                   (BinOp ''-'' (Num ''100'')
                      (BinOp ''*'' (Num ''100'') (Attr (Name ''df'') ''valid_accuracy'')))])),
     ExprStmt (Call (Attr (Attr (Name ''plt'') ''style'') ''use'') [Str ''seaborn'']),
     Assign [Name ''fig'', Name ''ax1'']
       (Some (Call (Attr (Name ''plt'') ''subplots'')
                [Kw ''figsize'' (Seq [Num ''8'', Num ''3''])])),
     ExprStmt (Call (Attr (Index (Attr (Name ''df'') ''loc'')
                             [Slice [], Seq [Str ''train_loss'', Str ''valid_loss'']]) ''plot'')
                 [Kw ''ax'' (Name ''ax1''), Kw ''style'' (Seq [Str ''-'', Str '':'']),
                  Kw ''marker'' (Str ''o''), Kw ''color'' (Str ''tab:blue''),
                  Kw ''legend'' (Const ''False''), Kw ''fontsize'' (Num ''14'')]),
     ExprStmt (Call (Attr (Name ''ax1'') ''tick_params'')
                 [Kw ''axis'' (Str ''y''), Kw ''labelcolor'' (Str ''tab:blue''),
                  Kw ''labelsize'' (Num ''14'')]),
     ExprStmt (Call (Attr (Name ''ax1'') ''set_ylabel'')
                 [Str ''Loss'', Kw ''color'' (Str ''tab:blue''), Kw ''fontsize'' (Num ''14'')]),
     Assign [Name ''ax2''] (Some (Call (Attr (Name ''ax1'') ''twinx'') [])),
     ExprStmt (Call (Attr (Index (Attr (Name ''df'') ''loc'')
                             [Slice [], Seq [Str ''train_misclass'', Str ''valid_misclass'']])
                       ''plot'')
                 [Kw ''ax'' (Name ''ax2''), Kw ''style'' (Seq [Str ''-'', Str '':'']),
                  Kw ''marker'' (Str ''o''), Kw ''color'' (Str ''tab:red''),
                  Kw ''legend'' (Const ''False'')]),
     ExprStmt (Call (Attr (Name ''ax2'') ''tick_params'')
                 [Kw ''axis'' (Str ''y''), Kw ''labelcolor'' (Str ''tab:red''),
                  Kw ''labelsize'' (Num ''14'')]),
     ExprStmt (Call (Attr (Name ''ax2'') ''set_ylabel'')
                 [Str ''Misclassification Rate [%]'', Kw ''color'' (Str ''tab:red''),
                  Kw ''fontsize'' (Num ''14'')]),
     ExprStmt (Call (Attr (Name ''ax2'') ''set_ylim'')
                 [Index (Call (Attr (Name ''ax2'') ''get_ylim'') []) [Num ''0''], Num ''85'']),
     ExprStmt (Call (Attr (Name ''ax1'') ''set_xlabel'')
                 [Str ''Epoch'', Kw ''fontsize'' (Num ''14'')]),
     Assign [Name ''handles''] (Some (Seq [])),
     ExprStmt (Call (Attr (Name ''handles'') ''append'')
                 [Call (Name ''Line2D'')
                    [Seq [Num ''0''], Seq [Num ''0''], Kw ''color'' (Str ''black''),
                     Kw ''linewidth'' (Num ''1''), Kw ''linestyle'' (Str ''-''),
                     Kw ''label'' (Str ''Train'')]]),
     ExprStmt (Call (Attr (Name ''handles'') ''append'')
                 [Call (Name ''Line2D'')
                    [Seq [Num ''0''], Seq [Num ''0''], Kw ''color'' (Str ''black''),
                     Kw ''linewidth'' (Num ''1''), Kw ''linestyle'' (Str '':''),
                     Kw ''label'' (Str ''Valid'')]]),
     ExprStmt (Call (Attr (Name ''plt'') ''legend'')
                 [Name ''handles'',
                  Comp [Call (Attr (Name ''h'') ''get_label'') []] [''h''] (Name ''handles''),
                  Kw ''fontsize'' (Num ''14'')]),
     ExprStmt (Call (Attr (Name ''plt'') ''tight_layout'') [])]"

definition decoding_nb :: "cell list" where
  "decoding_nb =
    [CodeCell cell_install,
     CodeCell cell_inline,
     MarkdownCell,
     CodeCell cell_load,
     CodeCell cell_import_create,
     CodeCell cell_info,
     CodeCell cell_windows,
     MarkdownCell,
     CodeCell cell_model,
     CodeCell cell_fit,
     CodeCell cell_curves]"

section \<open>The LIMO notebook\<close>

text \<open>
  The code cells of \<open>coherence_ITC_limo_data_practical_week_4.ipynb\<close>. The cell that
  compares topographic power maps contains the line
  \<^verbatim>\<open>fmin1, fmax1, fmin2, fmax2, tmin, tmax =\<close>
  with nothing after the \<open>=\<close>. The cell is written here with that value as a parameter:
  the notebook as it stands has \<open>None\<close> there.
\<close>

definition limo_imports :: "stmt list" where
  "limo_imports =
    [Import ''numpy'' [''np''],
     Import ''matplotlib.pyplot'' [''plt''],
     Import ''mne'' [''mne''],
     Import ''mne.datasets.limo'' [''load_data''],
     Import ''mne.stats'' [''linear_regression''],
     Import ''mne.viz'' [''plot_events'', ''plot_compare_evokeds''],
     Import ''mne'' [''combine_evoked''],
     Import ''mne.time_frequency'' [''tfr_morlet'', ''psd_multitaper'', ''psd_welch''],
     ExprStmt (Call (Name ''print'') [Name ''__doc__'']),
     Assign [Name ''subj''] (Some (Num ''1''))]"

definition limo_load :: "stmt list" where
  "limo_load =
    [Assign [Name ''limo_epochs'']
       (Some (Call (Name ''load_data'') [Kw ''subject'' (Name ''subj'')]))]"

definition limo_print :: "stmt list" where
  "limo_print = [ExprStmt (Call (Name ''print'') [Name ''limo_epochs''])]"

definition limo_events :: "stmt list" where
  "limo_events =
    [Assign [Name ''fig'']
       (Some (Call (Name ''plot_events'')
                [Attr (Name ''limo_epochs'') ''events'',
                 Kw ''event_id'' (Attr (Name ''limo_epochs'') ''event_id'')])),
     ExprStmt (Call (Attr (Name ''fig'') ''suptitle'')
                 [Str ''Distribution of events in LIMO epochs''])]"

definition limo_summary :: "stmt list" where
  "limo_summary =
    [Assign [Name ''epochs_summary'']
       (Some (Call (Attr (Call (Attr (Attr (Name ''limo_epochs'') ''metadata'') ''describe'')
                            [Kw ''include'' (Str ''all'')]) ''round'')
                [Num ''3''])),
     ExprStmt (Call (Name ''print'') [Name ''epochs_summary''])]"

definition face_average :: "string \<Rightarrow> expr" where
  "face_average c = Call (Attr (Index (Name ''limo_epochs'') [Str c]) ''average'') []"

definition limo_erps :: "stmt list" where
  "limo_erps =
    [Assign [Name ''ts_args'']
       (Some (Call (Name ''dict'') [Kw ''xlim'' (Seq [Num ''-0.25'', Num ''0.5''])])),
     ExprStmt (Call (Attr (face_average ''Face/A'') ''plot_joint'')
                 [Kw ''times'' (Seq [Num ''0.15'']),
                  Kw ''title'' (Str ''Evoked response: Face A''),
                  Kw ''ts_args'' (Name ''ts_args'')]),
     ExprStmt (Call (Attr (face_average ''Face/B'') ''plot_joint'')
                 [Kw ''times'' (Seq [Num ''0.15'']),
                  Kw ''title'' (Str ''Evoked response: Face B''),
                  Kw ''ts_args'' (Name ''ts_args'')])]"

definition limo_difference :: "stmt list" where
  "limo_difference =
    [Assign [Name ''difference_wave'']
       (Some (Call (Name ''combine_evoked'')
                [Seq [face_average ''Face/A'', face_average ''Face/B''],
                 Kw ''weights'' (Seq [Num ''1'', Num ''-1''])])),
     ExprStmt (Call (Attr (Name ''difference_wave'') ''plot_joint'')
                 [Kw ''times'' (Seq [Num ''0.15'']),
                  Kw ''title'' (Str ''Difference Face A - Face B'')])]"

text \<open>\<open>limo_epochs[phase_coh == e]\<close>, the epochs of one level of stimulus phase coherence.\<close>

definition level_subset :: "expr \<Rightarrow> expr" where
  "level_subset e = Index (Name ''limo_epochs'') [BinOp ''=='' (Name ''phase_coh'') e]"

definition compare_loop :: stmt where
  "compare_loop =
     For [''electrode''] (Name ''electrodes'')
       [Assign [Name ''fig'', Name ''ax'']
          (Some (Call (Attr (Name ''plt'') ''subplots'')
                   [Kw ''figsize'' (Seq [Num ''8'', Num ''4''])])),
        ExprStmt (Call (Name ''plot_compare_evokeds'')
                    [Name ''evokeds'',
                     Kw ''axes'' (Name ''ax''),
                     Kw ''ylim'' (Call (Name ''dict'') [Kw ''eeg'' (Seq [Num ''-20'', Num ''15''])]),
                     Kw ''picks'' (Name ''electrode''),
                     Kw ''cmap'' (Seq [Str ''Phase coherence'', Str ''magma''])])]"

definition limo_levels :: "stmt list" where
  "limo_levels =
    [Assign [Name ''phase_coh'']
       (Some (Index (Attr (Name ''limo_epochs'') ''metadata'') [Str ''phase-coherence''])),
     Assign [Name ''levels'']
       (Some (Call (Name ''sorted'') [Call (Attr (Name ''phase_coh'') ''unique'') []])),
     Assign [Name ''labels'']
       (Some (Comp [Call (Attr (Str ''{0:.2f}'') ''format'') [Name ''i'']] [''i'']
                (Call (Attr (Name ''np'') ''arange'') [Num ''0.'', Num ''0.90'', Num ''0.05'']))),
     Assign [Name ''evokeds'']
       (Some (Comp [Name ''label'',
                    Call (Attr (level_subset (Name ''level'')) ''average'') []]
                [''level'', ''label'']
                (Call (Name ''zip'') [Name ''levels'', Name ''labels'']))),
     Assign [Name ''electrodes''] (Some (Seq [Str ''C22'', Str ''B11''])),
     compare_loop]"

definition limo_bands :: "stmt list" where
  "limo_bands =
    [Assign [Name ''bands'']
       (Some (Seq [Seq [Num ''0'', Num ''4'', Str ''Delta''],
                   Seq [Num ''4'', Num ''8'', Str ''Theta''],
                   Seq [Num ''8'', Num ''12'', Str ''Alpha''],
                   Seq [Num ''12'', Num ''30'', Str ''Beta'']]))]"

definition limo_psd :: "stmt list" where
  "limo_psd =
    [ExprStmt (Call (Attr (level_subset (Index (Name ''levels'') [Num ''0'']))
                       ''plot_psd_topomap'')
                 [Kw ''bands'' (Name ''bands''), Kw ''ch_type'' (Str ''eeg''),
                  Kw ''normalize'' (Const ''True'')]),
     ExprStmt (Call (Attr (level_subset (Index (Name ''levels'') [Num ''-1'']))
                       ''plot_psd_topomap'')
                 [Kw ''bands'' (Name ''bands''), Kw ''ch_type'' (Str ''eeg''),
                  Kw ''normalize'' (Const ''True'')])]"

definition tfr_call :: "expr \<Rightarrow> expr" where
  "tfr_call level =
     Call (Name ''tfr_morlet'')
       [level_subset level,
        Kw ''freqs'' (Name ''freqs''), Kw ''n_cycles'' (Name ''n_cycles''),
        Kw ''use_fft'' (Const ''True''), Kw ''return_itc'' (Const ''True''),
        Kw ''decim'' (Num ''3''), Kw ''n_jobs'' (Num ''1''), Kw ''picks'' (Name ''picks'')]"

definition limo_tfr :: "stmt list" where
  "limo_tfr =
    [Assign [Name ''picks'']
       (Some (Call (Attr (Name ''mne'') ''pick_types'')
                [Attr (Name ''limo_epochs'') ''info'',
                 Kw ''meg'' (Const ''False''), Kw ''eeg'' (Const ''True''),
                 Kw ''eog'' (Const ''False''), Kw ''stim'' (Const ''False'')])),
     Assign [Name ''freqs'']
       (Some (Call (Attr (Name ''np'') ''logspace'')
                [Star (Call (Attr (Name ''np'') ''log10'') [Seq [Num ''6'', Num ''35'']]),
                 Kw ''num'' (Num ''8'')])),
     Assign [Name ''n_cycles''] (Some (BinOp ''/'' (Name ''freqs'') (Num ''2.''))),
     Assign [Name ''power_high'', Name ''itc_high'']
       (Some (tfr_call (Index (Name ''levels'') [Num ''-1'']))),
     Assign [Name ''power_low'', Name ''itc_low'']
       (Some (tfr_call (Index (Name ''levels'') [Num ''0''])))]"

definition limo_popout :: "stmt list" where
  "limo_popout = []"

definition limo_pick :: "stmt list" where
  "limo_pick =
    [Assign [Name ''pick''] (Some (Num ''36'')),
     ExprStmt (Call (Name ''print'')
                 [Index (Attr (Name ''power_high'') ''ch_names'') [Name ''pick'']])]"

definition pick_name :: expr where
  "pick_name = Index (Attr (Name ''power_high'') ''ch_names'') [Name ''pick'']"

definition limo_power :: "stmt list" where
  "limo_power =
    [Assign [Name ''blMode''] (Some (Str ''logratio'')),
     Assign [Name ''figch'', Name ''axis'']
       (Some (Call (Attr (Name ''plt'') ''subplots'')
                [Num ''1'', Num ''2'', Kw ''figsize'' (Seq [Num ''13'', Num ''6''])])),
     ExprStmt (Call (Attr (Name ''power_high'') ''plot'')
                 [Seq [Name ''pick''], Kw ''baseline'' (Seq [Num ''-0.2'', Num ''0'']),
                  Kw ''mode'' (Name ''blMode''),
                  Kw ''axes'' (Index (Name ''axis'') [Num ''0'']),
                  Kw ''show'' (Const ''False'')]),
     ExprStmt (Call (Attr (Name ''power_low'') ''plot'')
                 [Seq [Name ''pick''], Kw ''baseline'' (Seq [Num ''-0.2'', Num ''0'']),
                  Kw ''mode'' (Name ''blMode''),
                  Kw ''axes'' (Index (Name ''axis'') [Num ''1'']),
                  Kw ''show'' (Const ''False'')]),
     ExprStmt (Call (Attr (Index (Name ''axis'') [Num ''0'']) ''set'')
                 [Kw ''title'' (BinOp ''+'' pick_name (Str '' high PC''))]),
     ExprStmt (Call (Attr (Index (Name ''axis'') [Num ''1'']) ''set'')
                 [Kw ''title'' (BinOp ''+'' pick_name (Str '' low PC''))]),
     ExprStmt (Call (Attr (Attr (Name ''mne'') ''viz'') ''tight_layout'') []),
     ExprStmt (Call (Attr (Name ''plt'') ''show'') [])]"

text \<open>
  One \<open>plot_topomap\<close> call of the comparison cell: the object plotted, the channel type,
  the frequency range, the subplot and the end of the title.
\<close>

definition topomap_call ::
  "string \<Rightarrow> expr \<Rightarrow> string \<Rightarrow> string \<Rightarrow> string \<Rightarrow> string \<Rightarrow> string \<Rightarrow> stmt" where
  "topomap_call obj chtype lo hi row col suffix =
     ExprStmt (Call (Attr (Name obj) ''plot_topomap'')
       [Kw ''ch_type'' chtype,
        Kw ''tmin'' (Name ''tmin''), Kw ''tmax'' (Name ''tmax''),
        Kw ''fmin'' (Name lo), Kw ''fmax'' (Name hi),
        Kw ''baseline'' (Name ''bl''), Kw ''mode'' (Name ''blMode''),
        Kw ''axes'' (Index (Name ''axis'') [Num row, Num col]),
        Kw ''title''
          (BinOp ''+''
             (BinOp ''+''
                (BinOp ''+'' (Call (Name ''str'') [Name lo]) (Str '':''))
                (Call (Name ''str'') [Name hi]))
             (Str suffix)),
        Kw ''show'' (Const ''False'')])"

definition limo_topomap_with :: "expr option \<Rightarrow> stmt list" where
  "limo_topomap_with v =
    [Assign [Name ''bl'', Name ''tmax'', Name ''ch'']
       (Some (Seq [Seq [Num ''-0.2'', Num ''0''], Num ''0.35'', Str ''eeg''])),
     Assign [Name ''fmin1'', Name ''fmax1'', Name ''fmin2'', Name ''fmax2'',
             Name ''tmin'', Name ''tmax''] v,
     Assign [Name ''fig'', Name ''axis'']
       (Some (Call (Attr (Name ''plt'') ''subplots'')
                [Num ''2'', Num ''2'', Kw ''figsize'' (Seq [Num ''13'', Num ''6''])])),
     topomap_call ''power_high'' (Name ''ch'') ''fmin1'' ''fmax1'' ''0'' ''0'' '' hz PC-H'',
     topomap_call ''power_high'' (Str ''eeg'') ''fmin2'' ''fmax2'' ''1'' ''0'' '' hz PC-H'',
     topomap_call ''power_low'' (Str ''eeg'') ''fmin1'' ''fmax1'' ''0'' ''1'' '' hz PC-L'',
     topomap_call ''power_low'' (Str ''eeg'') ''fmin2'' ''fmax2'' ''1'' ''1'' '' hz PC-L'',
     ExprStmt (Call (Attr (Attr (Name ''mne'') ''viz'') ''tight_layout'') []),
     ExprStmt (Call (Attr (Name ''plt'') ''show'') [])]"

definition limo_topomap :: "stmt list" where
  "limo_topomap = limo_topomap_with None"

definition tf_plot :: "string \<Rightarrow> string \<Rightarrow> string \<Rightarrow> stmt" where
  "tf_plot obj row col =
     ExprStmt (Call (Attr (Name obj) ''plot'')
       [Name ''pick'', Kw ''baseline'' (Seq [Num ''-0.3'', Num ''-0.01'']),
        Kw ''mode'' (Name ''blMode''),
        Kw ''axes'' (Index (Name ''axis'') [Num row, Num col]),
        Kw ''show'' (Const ''False'')])"

definition set_title :: "string \<Rightarrow> string \<Rightarrow> string \<Rightarrow> stmt" where
  "set_title row col t =
     ExprStmt (Call (Attr (Index (Name ''axis'') [Num row, Num col]) ''set'')
                 [Kw ''title'' (Str t)])"

definition limo_itc :: "stmt list" where
  "limo_itc =
    [Assign [Name ''blMode''] (Some (Str ''logratio'')),
     Assign [Name ''fig'', Name ''axis'']
       (Some (Call (Attr (Name ''plt'') ''subplots'')
                [Num ''2'', Num ''2'', Kw ''figsize'' (Seq [Num ''15'', Num ''8''])])),
     tf_plot ''itc_high'' ''0'' ''0'',
     tf_plot ''itc_low'' ''0'' ''1'',
     ExprStmt (Call (Attr (Attr (Name ''mne'') ''viz'') ''tight_layout'') []),
     set_title ''0'' ''0'' ''High-PC ITC'',
     set_title ''0'' ''1'' ''Low-PC ITC'',
     tf_plot ''power_low'' ''1'' ''1'',
     tf_plot ''power_high'' ''1'' ''0'',
     set_title ''1'' ''1'' ''Low-PC PWR'',
     set_title ''1'' ''0'' ''High-PC PWR'',
     ExprStmt (Call (Attr (Name ''plt'') ''show'') [])]"

definition limo_picks :: "stmt list" where
  "limo_picks =
    [Assign [Name ''picks'']
       (Some (Call (Attr (Name ''mne'') ''pick_channels_regexp'')
                [Attr (Name ''itc_high'') ''ch_names'', Str ''^B1.''])),
     Assign [Name ''picks''] (Some (Seq [Num ''36'', Num ''37'']))]"

definition joint_plot :: "string \<Rightarrow> string \<Rightarrow> stmt" where
  "joint_plot obj t =
     ExprStmt (Call (Attr (Name obj) ''plot_joint'')
       [Kw ''baseline'' (Seq [Num ''-0.3'', Num ''-0.001'']), Kw ''mode'' (Name ''blMode''),
        Kw ''tmin'' (Num ''-.2''), Kw ''tmax'' (Num ''0.5''),
        Kw ''timefreqs'' (Seq [Seq [Num ''.12'', Num ''21''], Seq [Num ''.14'', Num ''7.5'']]),
        Kw ''picks'' (Name ''picks''), Kw ''title'' (Str t)])"

definition limo_joint :: "stmt list" where
  "limo_joint =
    [joint_plot ''itc_high'' ''High-PC'',
     joint_plot ''itc_low'' ''Low-PC'',
     Assign [Name ''evokeds'']
       (Some (Comp [Name ''label'',
                    Call (Attr (level_subset (Name ''level'')) ''average'') []]
                [''level'', ''label'']
                (Call (Name ''zip'')
                   [Index (Name ''levels'') [Slice [Num ''1'', Num ''5'']],
                    Index (Name ''labels'') [Slice [Num ''1'', Num ''5'']]]))),
     Assign [Name ''electrodes''] (Some (Seq [Str ''B11''])),
     compare_loop]"

definition limo_nb_with :: "expr option \<Rightarrow> cell list" where
  "limo_nb_with v =
    [CodeCell cell_inline, MarkdownCell,
     CodeCell limo_imports, MarkdownCell,
     CodeCell limo_load, MarkdownCell,
     CodeCell limo_print, MarkdownCell,
     CodeCell limo_events, MarkdownCell,
     CodeCell limo_summary, MarkdownCell,
     CodeCell limo_erps, MarkdownCell,
     CodeCell limo_difference, MarkdownCell, MarkdownCell,
     CodeCell limo_levels, MarkdownCell, MarkdownCell,
     CodeCell limo_bands,
     CodeCell limo_psd, MarkdownCell,
     CodeCell limo_tfr,
     CodeCell limo_popout,
     CodeCell limo_pick, MarkdownCell,
     CodeCell limo_power, MarkdownCell,
     CodeCell (limo_topomap_with v), MarkdownCell,
     CodeCell limo_itc, MarkdownCell,
     CodeCell limo_picks,
     CodeCell limo_joint, MarkdownCell, MarkdownCell]"

definition limo_nb :: "cell list" where
  "limo_nb = limo_nb_with None"

text \<open>
  The values that the markdown cell after the comparison suggests for the empty
  assignment: \<open>6, 8, 15, 25, 0.05, 0.35\<close>.
\<close>

definition suggested :: expr where
  "suggested = Seq [Num ''6'', Num ''8'', Num ''15'', Num ''25'', Num ''0.05'', Num ''0.35'']"

text \<open>A library that never raises, takes every test as true and iterates twice.\<close>

definition quiet :: env where
  "quiet = \<lparr>raises = (\<lambda>_. False), truthy = (\<lambda>_. True), iters = (\<lambda>_. 2)\<rparr>"

section \<open>Model set-up and fitting\<close>

text \<open>
  The model cell of the decoding notebook reads the expected input shape from the first
  item of the windowed dataset:
  \<^verbatim>\<open>
  n_classes=4
  n_chans = windows_dataset[0][0].shape[0]
  input_window_samples = windows_dataset[0][0].shape[1]
  model = ShallowFBCSPNet(n_chans, n_classes,
                          input_window_samples=input_window_samples,
                          final_conv_length='auto')
  \<close>
  An item of the dataset is a window (an array, of which only the shape is read) with its
  label. Indexing raises \<open>IndexError\<close> out of range.
\<close>

datatype fit_error = IndexError | ShapeMismatch

record item =
  array_shape :: "nat list"
  label :: nat

type_synonym windows = "item list"

fun item0 :: "'a list \<Rightarrow> fit_error + 'a" where
  "item0 [] = Inl IndexError"
| "item0 (x # _) = Inr x"

fun item1 :: "'a list \<Rightarrow> fit_error + 'a" where
  "item1 (_ # y # _) = Inr y"
| "item1 _ = Inl IndexError"

datatype conv_length = Auto | Fixed nat

record net =
  in_chans :: nat
  n_outputs :: nat
  window_samples :: nat
  final_conv_length :: conv_length

definition n_classes :: nat where
  "n_classes = 4"

definition n_chans :: "windows \<Rightarrow> fit_error + nat" where
  "n_chans ds = (case item0 ds of Inl e \<Rightarrow> Inl e | Inr w \<Rightarrow> item0 (array_shape w))"

definition input_window_samples :: "windows \<Rightarrow> fit_error + nat" where
  "input_window_samples ds =
     (case item0 ds of Inl e \<Rightarrow> Inl e | Inr w \<Rightarrow> item1 (array_shape w))"

text \<open>
  Modelled from the spec: the constructor \<open>ShallowFBCSPNet\<close> of braindecode is not code
  of the repository. The spec speaks of "the model's expected input shape"; the constructor
  is taken to record the channel count and window length it is given as that shape.
\<close>

definition ShallowFBCSPNet :: "nat \<Rightarrow> nat \<Rightarrow> nat \<Rightarrow> conv_length \<Rightarrow> net" where
  "ShallowFBCSPNet c k t f =
     \<lparr>in_chans = c, n_outputs = k, window_samples = t, final_conv_length = f\<rparr>"

definition model :: "windows \<Rightarrow> fit_error + net" where
  "model ds =
     (case n_chans ds of
        Inl e \<Rightarrow> Inl e
      | Inr c \<Rightarrow> (case input_window_samples ds of
                    Inl e \<Rightarrow> Inl e
                  | Inr t \<Rightarrow> Inr (ShallowFBCSPNet c n_classes t Auto)))"

text \<open>
  Modelled from the spec: the shape check of \<open>EEGClassifier.fit\<close> (braindecode, skorch
  and torch) is not code of the repository. The model training contract of the spec reads:
  "fails if channel/sample dimensions of the dataset are inconsistent with the model's
  expected input shape". An item is consistent with a model when its channel dimension and
  its sample dimension are the model's; the check fails when some item is not.
\<close>

definition consistent :: "net \<Rightarrow> item \<Rightarrow> bool" where
  "consistent m w \<longleftrightarrow>
     item0 (array_shape w) = Inr (in_chans m) \<and> item1 (array_shape w) = Inr (window_samples m)"

definition shape_check :: "net \<Rightarrow> windows \<Rightarrow> fit_error option" where
  "shape_check m ds = (if list_all (consistent m) ds then None else Some ShapeMismatch)"

text \<open>Two windows of 59 channels and 541 samples, and two that differ in channel count.\<close>

definition two_windows :: windows where
  "two_windows = [\<lparr>array_shape = [59, 541], label = 0\<rparr>, \<lparr>array_shape = [59, 541], label = 3\<rparr>]"

definition mixed_windows :: windows where
  "mixed_windows = [\<lparr>array_shape = [59, 541], label = 0\<rparr>, \<lparr>array_shape = [60, 541], label = 3\<rparr>]"

section \<open>Properties\<close>

subsection \<open>A cell that does not compile stops the run\<close>

lemma run_cells_stops_at_uncompilable:
  assumes "\<not> compiles body"
  shows "\<exists>k x s'. run_cells E i (pre @ CodeCell body # post) s = Stopped k x s' \<and>
           (k < i + length pre \<or> (k = i + length pre \<and> x = SyntaxError))"
proof (induction pre arbitrary: i s)
  case Nil
  show ?case using assms by (simp add: run_cell_def)
next
  case (Cons c pre)
  show ?case
  proof (cases c)
    case MarkdownCell
    from Cons.IH [of "Suc i" s] show ?thesis
      using MarkdownCell by auto
  next
    case (CodeCell b)
    show ?thesis
    proof (cases "run_cell E b s")
      case (Ok s1)
      from Cons.IH [of "Suc i" s1] show ?thesis
        using CodeCell Ok by auto
    next
      case (Raised x s1)
      then show ?thesis using CodeCell by simp
    qed
  qed
qed

lemma limo_topomap_compiles_iff: "compiles (limo_topomap_with v) = (v \<noteq> None)"
  by (cases v) (simp_all add: compiles_def limo_topomap_with_def topomap_call_def)

lemma limo_nb_split: "limo_nb = take 29 limo_nb @ CodeCell limo_topomap # drop 30 limo_nb"
  by (simp add: limo_nb_def limo_nb_with_def limo_topomap_def)

text \<open>
  Claim C8. The cell of the LIMO notebook that compares topographic power maps cannot run
  as written: the assignment to \<open>fmin1, fmax1, fmin2, fmax2, tmin, tmax\<close> has no
  right-hand side. Whatever the library does and whatever state the kernel is in, running
  the cell raises \<open>SyntaxError\<close> and leaves the state as it was, so none of its
  \<open>plot_topomap\<close> calls is made; a run of the notebook from top to bottom stops at
  that cell (cell 29) with \<open>SyntaxError\<close>, or at an earlier cell; and the cell compiles
  exactly when a value is supplied for the assignment.
\<close>

theorem limo_topomap_cell_cannot_run:
  "run_cell E limo_topomap s = Raised SyntaxError s \<and>
   (\<exists>i x s'. run E limo_nb = Stopped i x s' \<and> (i < 29 \<or> (i = 29 \<and> x = SyntaxError))) \<and>
   compiles (limo_topomap_with v) = (v \<noteq> None)"
proof -
  have nc: "\<not> compiles limo_topomap"
    by (simp add: limo_topomap_def limo_topomap_compiles_iff)
  have a: "run_cell E limo_topomap s = Raised SyntaxError s"
    using nc by (simp add: run_cell_def)
  have len: "length (take 29 limo_nb) = 29"
    by (simp add: limo_nb_def limo_nb_with_def)
  from run_cells_stops_at_uncompilable [OF nc, of E 0 "take 29 limo_nb" "drop 30 limo_nb" fresh]
  have b: "\<exists>i x s'. run E limo_nb = Stopped i x s' \<and> (i < 29 \<or> (i = 29 \<and> x = SyntaxError))"
    unfolding run_def limo_nb_split [symmetric] len by simp
  from a b limo_topomap_compiles_iff show ?thesis by blast
qed

theorem limo_topomap_cell_cannot_run_witness:
  "run_cell quiet limo_topomap fresh = Raised SyntaxError fresh \<and>
   (\<exists>i x s'. run quiet limo_nb = Stopped i x s' \<and> (i < 29 \<or> (i = 29 \<and> x = SyntaxError))) \<and>
   compiles (limo_topomap_with (Some suggested))"
  using limo_topomap_cell_cannot_run [of quiet fresh "Some suggested"] by simp

text \<open>
  With a library that never raises, the run does reach the comparison cell and stops
  there, with no power map drawn; with the suggested values filled in, the run goes through
  and the cell draws its four maps.
\<close>

lemma limo_quiet_run_stops_at_topomap:
  "(case run quiet limo_nb of
      Finished s \<Rightarrow> False
    | Stopped i x s \<Rightarrow>
        i = 29 \<and> x = SyntaxError \<and> ''power_high.plot_topomap'' \<notin> set (calls s) \<and>
        ''power_low.plot_topomap'' \<notin> set (calls s))"
  by code_simp

lemma limo_filled_run_draws_four_maps:
  "(case run quiet (limo_nb_with (Some suggested)) of
      Finished s \<Rightarrow>
        filter (\<lambda>c. c = ''power_high.plot_topomap'' \<or> c = ''power_low.plot_topomap'') (calls s) =
          [''power_high.plot_topomap'', ''power_high.plot_topomap'',
           ''power_low.plot_topomap'', ''power_low.plot_topomap'']
    | Stopped i x s \<Rightarrow> False)"
  by code_simp

subsection \<open>The windowed dataset is built from names that are never bound\<close>

lemmas decoding_defs =
  run_def decoding_nb_def fresh_def run_cell_def compiles_def
  cell_install_def cell_inline_def cell_load_def cell_import_create_def cell_info_def
  cell_windows_def lib_op_def bind_names_def builtins_def

text \<open>
  Claim C9. The cell of the decoding notebook that builds the windowed dataset (cell 6)
  reads \<open>X\<close> and \<open>y\<close>, and no cell before it binds either. For every behaviour of
  the library, a run from top to bottom stops at cell 6 or before, with \<open>X\<close>,
  \<open>y\<close>, \<open>windows_dataset\<close> and \<open>model\<close> unbound and with neither the model
  constructor nor \<open>fit\<close> called. When none of the 35 library operations that the
  cells before cell 6 request raises, the run stops at cell 6 itself, with
  \<open>NameError\<close> for \<open>X\<close>.
\<close>

theorem decoding_windows_cell_name_error:
  "(case run E decoding_nb of
      Finished s \<Rightarrow> False
    | Stopped i x s \<Rightarrow>
        i \<le> 6 \<and> ''X'' \<notin> set (names s) \<and> ''y'' \<notin> set (names s) \<and>
        ''windows_dataset'' \<notin> set (names s) \<and> ''model'' \<notin> set (names s) \<and>
        ''ShallowFBCSPNet'' \<notin> set (calls s) \<and> ''clf.fit'' \<notin> set (calls s)) \<and>
   ((\<forall>k<35. \<not> raises E k) \<longrightarrow>
      (\<exists>s. run E decoding_nb = Stopped 6 (NameError ''X'') s))"
  by (simp add: decoding_defs)

theorem decoding_windows_cell_name_error_witness:
  "\<exists>s. run quiet decoding_nb = Stopped 6 (NameError ''X'') s"
  using decoding_windows_cell_name_error [of quiet] by (simp add: quiet_def)

text \<open>
  The cell on its own: in any state of the kernel in which \<open>X\<close> is not bound, it
  raises \<open>NameError\<close> before the library is asked for anything.
\<close>

lemma windows_cell_needs_X:
  "''X'' \<notin> set (names s) \<Longrightarrow>
     run_cell E cell_windows s = Raised (NameError ''X'') s \<or>
     run_cell E cell_windows s = Raised (NameError ''create_from_X_y'') s"
  by (simp add: run_cell_def compiles_def cell_windows_def builtins_def)

subsection \<open>The model is shaped after the dataset it is fitted on\<close>

lemma model_first:
  "model (w # ws) =
     (case array_shape w of
        c # t # _ \<Rightarrow> Inr (ShallowFBCSPNet c n_classes t Auto)
      | _ \<Rightarrow> Inl IndexError)"
  by (simp add: model_def n_chans_def input_window_samples_def split: list.splits)

lemma model_empty: "model [] = Inl IndexError"
  by (simp add: model_def n_chans_def)

text \<open>
  Claim C10. The model's channel count and window length are read from the first item of
  the windowed dataset. For every windowed dataset whose windows all have one shape, either
  the model cell itself raises \<open>IndexError\<close> (the dataset is empty, or its arrays have
  fewer than two dimensions), or the model is built and the shape check of fitting on that
  same dataset passes: the shape mismatch of the model training contract cannot occur.
\<close>

theorem first_item_shape_fits:
  assumes "\<forall>w\<in>set ds. \<forall>w'\<in>set ds. array_shape w = array_shape w'"
  shows "case model ds of Inl e \<Rightarrow> e = IndexError | Inr m \<Rightarrow> shape_check m ds = None"
proof (cases ds)
  case Nil
  then show ?thesis by (simp add: model_empty)
next
  case (Cons w ws)
  have wds: "w \<in> set ds" unfolding Cons by simp
  have same: "array_shape w' = array_shape w" if "w' \<in> set ds" for w'
    using assms that wds by blast
  show ?thesis
  proof (cases "model ds")
    case (Inl e)
    then have "e = IndexError"
      unfolding Cons model_first by (simp split: list.splits)
    with Inl show ?thesis by simp
  next
    case (Inr m)
    then obtain c t rest where sh: "array_shape w = c # t # rest"
      and m: "m = ShallowFBCSPNet c n_classes t Auto"
      unfolding Cons model_first by (auto split: list.splits)
    have "consistent m w'" if "w' \<in> set ds" for w'
      unfolding consistent_def m ShallowFBCSPNet_def same [OF that] sh by simp
    then have "list_all (consistent m) ds"
      unfolding list_all_iff by blast
    then have "shape_check m ds = None"
      by (simp add: shape_check_def)
    with Inr show ?thesis by simp
  qed
qed

theorem first_item_shape_fits_witness:
  "model two_windows = Inr (ShallowFBCSPNet 59 4 541 Auto) \<and>
   shape_check (ShallowFBCSPNet 59 4 541 Auto) two_windows = None"
  using first_item_shape_fits [of two_windows]
  by (simp add: two_windows_def model_first n_classes_def)

text \<open>
  The check is not vacuous: a dataset whose second window has one channel more than the
  first is rejected by the model built from it, and a dataset of one shape yields a model.
\<close>

lemma mixed_shapes_mismatch:
  "model mixed_windows = Inr (ShallowFBCSPNet 59 4 541 Auto) \<and>
   shape_check (ShallowFBCSPNet 59 4 541 Auto) mixed_windows = Some ShapeMismatch"
  by (simp add: mixed_windows_def model_first n_classes_def shape_check_def consistent_def
      ShallowFBCSPNet_def)

end
